theory Spec2Isabelle
  imports Complex_Main
begin

section \<open>JavaScript values and the coercions the client uses\<close>

text \<open>
  The dashboard client (\<^verbatim>\<open>frontend/src/App.jsx\<close>, \<^verbatim>\<open>frontend/src/services/api.js\<close>)
  handles values that come out of \<^verbatim>\<open>JSON.parse\<close> and out of HTTP responses. They are
  modelled as a datatype: the JSON values, and \<open>JUndefined\<close> for a property that is not there.
  An object lists its own properties; of a key listed twice the first entry is the one read.

  A number is a double: \<^verbatim>\<open>NaN\<close>, one of the two infinities, or a finite value, kept as the
  rational it is equal to. Zero has no sign here; the client's operations give the same
  result for both zeroes.
\<close>

datatype number = NaN | Fin rat | PosInf | NegInf

datatype jsval =
    JUndefined
  | JNull
  | JBool bool
  | JNum number
  | JStr string
  | JArr "jsval list"
  | JObj "(string \<times> jsval) list"

text \<open>
  The two ways the client's expressions throw, both a \<^verbatim>\<open>TypeError\<close>: a property read on
  \<^verbatim>\<open>null\<close> or \<^verbatim>\<open>undefined\<close>, and the conversion of an object that has no primitive
  value.
\<close>

datatype type_error = ReadOfNullish | NoPrimitive

datatype js_error = TypeError type_error

text \<open>
  Two conversions of the language are parameters of the model: the shortest decimal text
  that reads back as a given double, for a double that is not an integer below \<open>2\<^sup>5\<^sup>3\<close>,
  and the number a string denotes. So is the message an engine gives each \<^verbatim>\<open>TypeError\<close>.
\<close>

record host =
  number_text :: "rat \<Rightarrow> string"
  string_number :: "string \<Rightarrow> number"
  type_error_text :: "type_error \<Rightarrow> string"

subsection \<open>Rounding to a double\<close>

text \<open>
  IEEE-754 binary64, round to nearest, ties to even. A positive rational is scaled by a
  power of two into \<open>[2\<^sup>5\<^sup>2, 2\<^sup>5\<^sup>3)\<close>, or as far as the least exponent \<open>-1074\<close> allows
  (a subnormal), rounded to an integer there, and scaled back; \<open>2\<^sup>1\<^sup>0\<^sup>2\<^sup>4\<close> and above is
  infinite.
\<close>

definition pow2 :: "int \<Rightarrow> rat" where
  "pow2 e = (if 0 \<le> e then 2 ^ nat e else 1 / 2 ^ nat (- e))"

function scale_down :: "rat \<Rightarrow> int \<Rightarrow> rat \<times> int" where
  "scale_down a e = (if 2 ^ 53 \<le> a then scale_down (a / 2) (e + 1) else (a, e))"
  by pat_completeness auto
termination
proof (relation "measure (\<lambda>(a, e). nat \<lfloor>a\<rfloor>)")
  show "wf (measure (\<lambda>(a, e). nat \<lfloor>a\<rfloor>))" by simp
next
  fix a :: rat and e :: int
  assume a: "2 ^ 53 \<le> a"
  have "a / 2 < of_int \<lfloor>a\<rfloor>"
  proof -
    have "a < of_int \<lfloor>a\<rfloor> + 1" by linarith
    moreover have "(2::rat) \<le> a" using a by simp
    ultimately show ?thesis by linarith
  qed
  then have "\<lfloor>a / 2\<rfloor> < \<lfloor>a\<rfloor>" by (simp add: floor_less_iff)
  moreover have "0 < \<lfloor>a\<rfloor>" using a by (simp add: less_le_trans [of 0 "2 ^ 53" a])
  ultimately show "((a / 2, e + 1), (a, e)) \<in> measure (\<lambda>(a, e). nat \<lfloor>a\<rfloor>)" by simp
qed

function scale_up :: "rat \<Rightarrow> int \<Rightarrow> rat \<times> int" where
  "scale_up a e = (if a < 2 ^ 52 \<and> - 1074 < e then scale_up (a * 2) (e - 1) else (a, e))"
  by pat_completeness auto
termination
  by (relation "measure (\<lambda>(a, e). nat (e + 1074))") auto

declare scale_down.simps [simp del] scale_up.simps [simp del]

definition round_half_even :: "rat \<Rightarrow> int" where
  "round_half_even a =
     (let f = \<lfloor>a\<rfloor>; r = a - of_int f
      in if 1 / 2 < r \<or> (r = 1 / 2 \<and> odd f) then f + 1 else f)"

definition to_double :: "rat \<Rightarrow> number" where
  "to_double q =
     (if q = 0 then Fin 0
      else let (a, e) = (if 2 ^ 53 \<le> \<bar>q\<bar> then scale_down \<bar>q\<bar> 0 else scale_up \<bar>q\<bar> 0);
               v = of_int (round_half_even a) * pow2 e
           in if 2 ^ 1024 \<le> v then (if q < 0 then NegInf else PosInf)
              else Fin (if q < 0 then - v else v))"

subsection \<open>Truth, property reads\<close>

text \<open>\<^verbatim>\<open>ToBoolean\<close>: what \<^verbatim>\<open>||\<close> and \<^verbatim>\<open>? :\<close> test.\<close>

fun truthy :: "jsval \<Rightarrow> bool" where
  "truthy JUndefined = False"
| "truthy JNull = False"
| "truthy (JBool b) = b"
| "truthy (JNum NaN) = False"
| "truthy (JNum (Fin q)) = (q \<noteq> 0)"
| "truthy (JNum PosInf) = True"
| "truthy (JNum NegInf) = True"
| "truthy (JStr s) = (s \<noteq> [])"
| "truthy (JArr xs) = True"
| "truthy (JObj kvs) = True"

text \<open>\<^verbatim>\<open>a || b\<close>\<close>

definition js_or :: "jsval \<Rightarrow> jsval \<Rightarrow> jsval" where
  "js_or a b = (if truthy a then a else b)"

text \<open>
  Property reads. \<open>get_prop\<close> is the read on a value that is neither \<^verbatim>\<open>null\<close> nor
  \<^verbatim>\<open>undefined\<close>; the client reads only the names \<^verbatim>\<open>type\<close>, \<^verbatim>\<open>current_file\<close>,
  \<^verbatim>\<open>progress_pct\<close>, \<^verbatim>\<open>data\<close>, \<^verbatim>\<open>detail\<close>, \<^verbatim>\<open>structured_data\<close>, \<^verbatim>\<open>confidence\<close> and
  \<^verbatim>\<open>processing_time_seconds\<close>, which no primitive, array or object prototype defines.
  \<open>member\<close> is \<^verbatim>\<open>a.k\<close>, which throws on \<^verbatim>\<open>null\<close> and \<^verbatim>\<open>undefined\<close>;
  \<open>opt_member\<close> is \<^verbatim>\<open>a?.k\<close>.
\<close>

fun nullish :: "jsval \<Rightarrow> bool" where
  "nullish JUndefined = True"
| "nullish JNull = True"
| "nullish _ = False"

fun get_prop :: "jsval \<Rightarrow> string \<Rightarrow> jsval" where
  "get_prop (JObj kvs) k = (case map_of kvs k of None \<Rightarrow> JUndefined | Some v \<Rightarrow> v)"
| "get_prop _ k = JUndefined"

definition member :: "jsval \<Rightarrow> string \<Rightarrow> js_error + jsval" where
  "member a k = (if nullish a then Inl (TypeError ReadOfNullish) else Inr (get_prop a k))"

definition opt_member :: "jsval \<Rightarrow> string \<Rightarrow> jsval" where
  "opt_member a k = (if nullish a then JUndefined else get_prop a k)"

subsection \<open>Conversion to text\<close>

text \<open>Decimal digits of a natural number, without leading zeroes.\<close>

definition digit_char :: "nat \<Rightarrow> char" where
  "digit_char d = ''0123456789'' ! d"

function show_nat :: "nat \<Rightarrow> string" where
  "show_nat n = (if n < 10 then [digit_char n] else show_nat (n div 10) @ [digit_char (n mod 10)])"
  by pat_completeness auto
termination
  by (relation "measure id") auto

declare show_nat.simps [simp del]

text \<open>
  \<^verbatim>\<open>Number::toString\<close>: an integer below \<open>2\<^sup>5\<^sup>3\<close> in magnitude prints all its digits, which
  are the shortest text that reads back as it; any other finite number prints what the
  host's shortest-text algorithm gives.
\<close>

definition is_integer :: "rat \<Rightarrow> bool" where
  "is_integer q = (of_int \<lfloor>q\<rfloor> = q)"

fun number_to_string :: "host \<Rightarrow> number \<Rightarrow> string" where
  "number_to_string h NaN = ''NaN''"
| "number_to_string h PosInf = ''Infinity''"
| "number_to_string h NegInf = ''-Infinity''"
| "number_to_string h (Fin q) =
     (if is_integer q \<and> \<bar>q\<bar> < 2 ^ 53
      then (if q < 0 then ''-'' else '''') @ show_nat (nat \<lfloor>\<bar>q\<bar>\<rfloor>)
      else number_text h q)"

text \<open>\<^verbatim>\<open>Array.prototype.join\<close> with a comma.\<close>

fun join_comma :: "string list \<Rightarrow> string" where
  "join_comma [] = ''''"
| "join_comma [s] = s"
| "join_comma (s # t # ss) = s @ '','' @ join_comma (t # ss)"

text \<open>The results of a list of conversions done in order: the first error, or all values.\<close>

fun collect :: "('e + 'a) list \<Rightarrow> 'e + 'a list" where
  "collect [] = Inr []"
| "collect (x # xs) =
     (case x of
        Inl e \<Rightarrow> Inl e
      | Inr a \<Rightarrow> (case collect xs of Inl e \<Rightarrow> Inl e | Inr as \<Rightarrow> Inr (a # as)))"

text \<open>
  An object out of \<^verbatim>\<open>JSON.parse\<close> has a primitive value unless it has an own property
  \<^verbatim>\<open>toString\<close>: no JSON value is callable, so that property hides
  \<^verbatim>\<open>Object.prototype.toString\<close>, and \<^verbatim>\<open>valueOf\<close>, own or inherited, gives no primitive.
\<close>

definition has_own :: "(string \<times> jsval) list \<Rightarrow> string \<Rightarrow> bool" where
  "has_own kvs k = (k \<in> set (map fst kvs))"

text \<open>
  \<^verbatim>\<open>ToString\<close>, as a template literal \<^verbatim>\<open>${v}\<close> applies it. An array joins the texts of
  its elements, \<^verbatim>\<open>null\<close> and \<^verbatim>\<open>undefined\<close> elements as the empty text; a plain object
  prints \<^verbatim>\<open>[object Object]\<close>; an object with an own \<^verbatim>\<open>toString\<close> property throws.
\<close>

fun to_string :: "host \<Rightarrow> jsval \<Rightarrow> js_error + string" where
  "to_string h JUndefined = Inr ''undefined''"
| "to_string h JNull = Inr ''null''"
| "to_string h (JBool b) = Inr (if b then ''true'' else ''false'')"
| "to_string h (JNum n) = Inr (number_to_string h n)"
| "to_string h (JStr s) = Inr s"
| "to_string h (JArr xs) =
     (case collect (map (\<lambda>x. if nullish x then Inr '''' else to_string h x) xs) of
        Inl e \<Rightarrow> Inl e
      | Inr ss \<Rightarrow> Inr (join_comma ss))"
| "to_string h (JObj kvs) =
     (if has_own kvs ''toString'' then Inl (TypeError NoPrimitive) else Inr ''[object Object]'')"

text \<open>
  The values that have a text: every value but an object with an own \<^verbatim>\<open>toString\<close>
  property, and an array that holds a value without text.
\<close>

fun has_text :: "jsval \<Rightarrow> bool" where
  "has_text (JArr xs) = list_all has_text xs"
| "has_text (JObj kvs) = (\<not> has_own kvs ''toString'')"
| "has_text _ = True"

subsection \<open>Conversion to a number, arithmetic\<close>

text \<open>
  \<^verbatim>\<open>ToNumber\<close>, as \<^verbatim>\<open>*\<close> applies it to its operands. An array converts through its text;
  a plain object through \<^verbatim>\<open>[object Object]\<close>, which denotes no number.
\<close>

fun to_number :: "host \<Rightarrow> jsval \<Rightarrow> js_error + number" where
  "to_number h JUndefined = Inr NaN"
| "to_number h JNull = Inr (Fin 0)"
| "to_number h (JBool b) = Inr (Fin (if b then 1 else 0))"
| "to_number h (JNum n) = Inr n"
| "to_number h (JStr s) = Inr (string_number h s)"
| "to_number h (JArr xs) =
     (case to_string h (JArr xs) of Inl e \<Rightarrow> Inl e | Inr t \<Rightarrow> Inr (string_number h t))"
| "to_number h (JObj kvs) =
     (if has_own kvs ''toString'' then Inl (TypeError NoPrimitive) else Inr NaN)"

text \<open>
  \<^verbatim>\<open>a * b\<close> on numbers: the product of two finite numbers, rounded to a double; an
  infinity times zero is \<^verbatim>\<open>NaN\<close>, and otherwise the infinity of the product's sign.
\<close>

definition signed_inf :: "bool \<Rightarrow> number" where
  "signed_inf positive = (if positive then PosInf else NegInf)"

fun js_mul :: "number \<Rightarrow> number \<Rightarrow> number" where
  "js_mul NaN y = NaN"
| "js_mul x NaN = NaN"
| "js_mul (Fin a) (Fin b) = to_double (a * b)"
| "js_mul (Fin a) PosInf = (if a = 0 then NaN else signed_inf (0 < a))"
| "js_mul (Fin a) NegInf = (if a = 0 then NaN else signed_inf (a < 0))"
| "js_mul PosInf (Fin b) = (if b = 0 then NaN else signed_inf (0 < b))"
| "js_mul NegInf (Fin b) = (if b = 0 then NaN else signed_inf (b < 0))"
| "js_mul PosInf PosInf = PosInf"
| "js_mul PosInf NegInf = NegInf"
| "js_mul NegInf PosInf = NegInf"
| "js_mul NegInf NegInf = PosInf"

text \<open>
  \<^verbatim>\<open>Number.prototype.toFixed(1)\<close>: for a magnitude below \<open>10\<^sup>2\<^sup>1\<close>, the integer \<open>n\<close> nearest to
  ten times the magnitude (the larger one on a tie), printed in full with a point before
  its last digit, and a minus sign for a negative number; otherwise \<^verbatim>\<open>Number::toString\<close>.
\<close>

fun to_fixed1 :: "host \<Rightarrow> number \<Rightarrow> string" where
  "to_fixed1 h NaN = ''NaN''"
| "to_fixed1 h PosInf = ''Infinity''"
| "to_fixed1 h NegInf = ''-Infinity''"
| "to_fixed1 h (Fin q) =
     (if \<bar>q\<bar> \<ge> 10 ^ 21 then number_to_string h (Fin q)
      else let n = nat \<lfloor>\<bar>q\<bar> * 10 + 1 / 2\<rfloor>
           in (if q < 0 then ''-'' else '''') @ show_nat (n div 10) @ ''.'' @ show_nat (n mod 10))"


section \<open>The API service (\<^verbatim>\<open>frontend/src/services/api.js\<close>)\<close>

text \<open>\<^verbatim>\<open>window.location\<close>: the host name and the port of the page, both strings.\<close>

record location =
  hostname :: string
  port :: string

definition frontend_dev_ports :: "string list" where
  "frontend_dev_ports =
     [''5173'', ''5174'', ''5175'', ''5176'', ''5177'', ''5178'', ''5179'', ''3000'', ''3001'']"

text \<open>\<^verbatim>\<open>currentPort || '8001'\<close> on a string: the empty string is the only falsy one.\<close>

definition getBackendPort :: "location \<Rightarrow> string" where
  "getBackendPort loc =
     (let currentPort = port loc;
          isFrontendDev = (currentPort \<in> set frontend_dev_ports)
      in if isFrontendDev then ''8003''
         else if currentPort \<noteq> [] then currentPort else ''8001'')"

definition BACKEND_PORT :: "location \<Rightarrow> string" where
  "BACKEND_PORT loc = getBackendPort loc"

definition API_BASE_URL :: "location \<Rightarrow> string" where
  "API_BASE_URL loc = ''http://'' @ hostname loc @ '':'' @ BACKEND_PORT loc @ ''/api''"

definition websocket_url :: "location \<Rightarrow> string" where
  "websocket_url loc = ''ws://'' @ hostname loc @ '':'' @ BACKEND_PORT loc @ ''/ws/batches''"


text \<open>
  A request handed to the HTTP library: the base URL of the \<^verbatim>\<open>axios\<close> instance, the relative
  URL, the \<^verbatim>\<open>params\<close> object and, for the upload, the name of the file in the form data.
\<close>

datatype http_method = GET | POST

record js_file =
  file_name :: string

record request =
  req_method :: http_method
  req_base :: string
  req_url :: string
  req_params :: "(string \<times> jsval) list"
  req_file :: "string option"

text \<open>
  \<^verbatim>\<open>ocrService.uploadFile(file, type)\<close>. Its only caller passes the \<^verbatim>\<open>selectedDocType\<close>
  state, which only ever holds string literals, so \<^verbatim>\<open>${type}\<close> is the string itself.
\<close>

definition uploadFile :: "location \<Rightarrow> js_file \<Rightarrow> string \<Rightarrow> request" where
  "uploadFile loc f type =
     \<lparr>req_method = POST, req_base = API_BASE_URL loc,
      req_url = ''process/upload?doc_type='' @ type,
      req_params = [], req_file = Some (file_name f)\<rparr>"

definition getStats :: "location \<Rightarrow> request" where
  "getStats loc =
     \<lparr>req_method = GET, req_base = API_BASE_URL loc, req_url = ''stats'',
      req_params = [], req_file = None\<rparr>"

text \<open>\<^verbatim>\<open>getResults(docType = null)\<close>: the default replaces an \<^verbatim>\<open>undefined\<close> argument.\<close>

definition getResults :: "location \<Rightarrow> jsval \<Rightarrow> request" where
  "getResults loc arg =
     (let docType = (if arg = JUndefined then JNull else arg);
          params = (if truthy docType then [(''doc_type'', docType)] else [])
      in \<lparr>req_method = GET, req_base = API_BASE_URL loc, req_url = ''results'',
          req_params = params, req_file = None\<rparr>)"


section \<open>The dashboard component (\<^verbatim>\<open>frontend/src/App.jsx\<close>)\<close>

subsection \<open>State\<close>

text \<open>
  The values a render of \<^verbatim>\<open>App\<close> closes over and a later callback still uses: the chosen
  file, and the \<^verbatim>\<open>filterType\<close> that this render's \<^verbatim>\<open>fetchResults\<close> reads.
\<close>

record closure =
  cl_file :: js_file
  cl_filterType :: jsval

text \<open>
  The \<^verbatim>\<open>useState\<close> cells of \<^verbatim>\<open>App\<close> that the properties below depend on, and the
  environment around them: whether the interval timer is running, the upload whose promise
  has not settled, the timer callback that is scheduled, the requests sent so far and the
  alerts shown so far. \<^verbatim>\<open>uploadProgress\<close> only ever holds the integers the client writes.
  The cells \<^verbatim>\<open>results\<close>, \<^verbatim>\<open>stats\<close> and \<^verbatim>\<open>selectedResult\<close> hold what the server sent
  and are not part of the state.
\<close>

record app =
  activeTab :: string
  isUploading :: bool
  uploadProgress :: int
  ocrLogs :: "string list"
  filterType :: jsval
  selectedDocType :: string
  progressInterval :: bool
  awaiting :: "closure option"
  scheduled :: "closure option"
  outbox :: "request list"
  alerts :: "string list"

definition fetchStats :: "location \<Rightarrow> app \<Rightarrow> app" where
  "fetchStats loc s = s\<lparr>outbox := outbox s @ [getStats loc]\<rparr>"

text \<open>\<open>ft\<close> is the \<^verbatim>\<open>filterType\<close> of the render that created this \<^verbatim>\<open>fetchResults\<close>.\<close>

definition fetchResults :: "location \<Rightarrow> jsval \<Rightarrow> app \<Rightarrow> app" where
  "fetchResults loc ft s = s\<lparr>outbox := outbox s @ [getResults loc ft]\<rparr>"

text \<open>The state after the first render and its effect, which fetches stats and results.\<close>

definition mounted :: "location \<Rightarrow> app" where
  "mounted loc =
     fetchResults loc JNull (fetchStats loc
       \<lparr>activeTab = ''dashboard'', isUploading = False, uploadProgress = 0, ocrLogs = [],
        filterType = JNull, selectedDocType = ''invoice'', progressInterval = False,
        awaiting = None, scheduled = None, outbox = [], alerts = []\<rparr>)"

subsection \<open>The websocket callback\<close>

text \<open>
  \<open>now\<close> is the text of \<^verbatim>\<open>new Date().toLocaleTimeString()\<close> when the line is built. The
  template literal converts its values from left to right and throws where one of them
  has no text.
\<close>

definition process_line :: "host \<Rightarrow> string \<Rightarrow> jsval \<Rightarrow> js_error + string" where
  "process_line h now message =
     (case to_string h (js_or (get_prop message ''current_file'') (JStr ''Processing...'')) of
        Inl e \<Rightarrow> Inl e
      | Inr f \<Rightarrow>
          (case to_string h (get_prop message ''progress_pct'') of
             Inl e \<Rightarrow> Inl e
           | Inr p \<Rightarrow> Inr (''['' @ now @ ''] PROCESS: '' @ f @ '' ('' @ p @ ''%)'')))"

definition connected_line :: "string \<Rightarrow> string" where
  "connected_line now = ''['' @ now @ ''] SYSTEM: Neural Connection Established''"

text \<open>
  The callback given to \<^verbatim>\<open>createWebSocket\<close>, as a function from the parsed message (the
  source's \<^verbatim>\<open>log\<close>) and the previous log lines to the new ones.
  \<^verbatim>\<open>[msg, ...prev].slice(0, 50)\<close> is \<open>take 50 (msg # prev)\<close>. Reading \<^verbatim>\<open>log.type\<close> of a
  \<^verbatim>\<open>null\<close> message throws, and so does building the line of a value without text; the log
  is then not updated.
\<close>

definition ws_callback :: "host \<Rightarrow> string \<Rightarrow> jsval \<Rightarrow> string list \<Rightarrow> js_error + string list" where
  "ws_callback h now message prev =
     (case member message ''type'' of
        Inl e \<Rightarrow> Inl e
      | Inr t \<Rightarrow>
          if t = JStr ''batch_update''
          then (case process_line h now message of
                  Inl e \<Rightarrow> Inl e
                | Inr msg \<Rightarrow> Inr (take 50 (msg # prev)))
          else if t = JStr ''connected'' then Inr (connected_line now # prev)
          else Inr prev)"

subsection \<open>The upload handler\<close>

text \<open>
  \<^verbatim>\<open>handleFileUpload\<close> is an async function. Its parts run at different times: the part up
  to the \<^verbatim>\<open>await\<close> when a file is chosen, the interval callback every 200 ms, the rest of
  the \<^verbatim>\<open>try\<close> block when the request succeeds, the \<^verbatim>\<open>catch\<close> block when it fails, and the
  timeout callback one second after a success.
\<close>

definition handleFileUpload :: "location \<Rightarrow> js_file option \<Rightarrow> app \<Rightarrow> app" where
  "handleFileUpload loc chosen s =
     (case chosen of
        None \<Rightarrow> s
      | Some f \<Rightarrow>
          s\<lparr>isUploading := True, uploadProgress := 10, progressInterval := True,
            awaiting := Some \<lparr>cl_file = f, cl_filterType = filterType s\<rparr>,
            outbox := outbox s @ [uploadFile loc f (selectedDocType s)]\<rparr>)"

definition progress_tick :: "int \<Rightarrow> int" where
  "progress_tick prev = (if prev < 90 then prev + 5 else prev)"

text \<open>An error as the \<^verbatim>\<open>catch\<close> block reads it: \<^verbatim>\<open>err.response\<close> and \<^verbatim>\<open>err.message\<close>.\<close>

record caught =
  err_response :: jsval
  err_message :: jsval

text \<open>The \<^verbatim>\<open>TypeError\<close> object an engine throws: no \<^verbatim>\<open>response\<close>, and the engine's message.\<close>

definition native_error :: "host \<Rightarrow> js_error \<Rightarrow> caught" where
  "native_error h e =
     (case e of TypeError t \<Rightarrow>
        \<lparr>err_response = JUndefined, err_message = JStr (type_error_text h t)\<rparr>)"

text \<open>The argument of \<^verbatim>\<open>alert\<close>, a template literal.\<close>

definition failure_text :: "host \<Rightarrow> caught \<Rightarrow> js_error + string" where
  "failure_text h err =
     (case to_string h (js_or (opt_member (opt_member (err_response err) ''data'') ''detail'')
                              (err_message err)) of
        Inl e \<Rightarrow> Inl e
      | Inr t \<Rightarrow> Inr (''Processing failed: '' @ t))"

text \<open>
  The \<^verbatim>\<open>catch\<close> block: it clears the interval and the uploading state, and then alerts.
  When the argument of the alert throws, no alert is shown.
\<close>

definition upload_catch :: "host \<Rightarrow> caught \<Rightarrow> app \<Rightarrow> app" where
  "upload_catch h err s =
     (let s1 = s\<lparr>progressInterval := False, isUploading := False, awaiting := None\<rparr>
      in case failure_text h err of
           Inl e \<Rightarrow> s1
         | Inr t \<Rightarrow> s1\<lparr>alerts := alerts s1 @ [t]\<rparr>)"

definition success_line :: "host \<Rightarrow> string \<Rightarrow> js_file \<Rightarrow> jsval \<Rightarrow> js_error + string" where
  "success_line h now f secs =
     (case to_string h secs of
        Inl e \<Rightarrow> Inl e
      | Inr t \<Rightarrow> Inr (''['' @ now @ ''] SUCCESS: '' @ file_name f @ '' processed in '' @ t @ ''s''))"

text \<open>
  The rest of the \<^verbatim>\<open>try\<close> block; \<open>data\<close> is \<^verbatim>\<open>resp.data\<close>. When it is \<^verbatim>\<open>null\<close> or
  \<^verbatim>\<open>undefined\<close> the property read throws, and when \<^verbatim>\<open>processing_time_seconds\<close> has no
  text the template literal throws; both inside the \<^verbatim>\<open>try\<close>, after the progress was set
  and the interval cleared, so that the \<^verbatim>\<open>catch\<close> block runs on the engine's
  \<^verbatim>\<open>TypeError\<close>.
\<close>

definition upload_resolved :: "host \<Rightarrow> closure \<Rightarrow> jsval \<Rightarrow> string \<Rightarrow> app \<Rightarrow> app" where
  "upload_resolved h c data now s =
     (let s1 = s\<lparr>uploadProgress := 100, progressInterval := False, awaiting := None\<rparr>
      in case member data ''processing_time_seconds'' of
           Inl e \<Rightarrow> upload_catch h (native_error h e) s1
         | Inr secs \<Rightarrow>
             (case success_line h now (cl_file c) secs of
                Inl e \<Rightarrow> upload_catch h (native_error h e) s1
              | Inr logMsg \<Rightarrow> s1\<lparr>ocrLogs := logMsg # ocrLogs s1, scheduled := Some c\<rparr>))"

definition upload_timeout :: "location \<Rightarrow> closure \<Rightarrow> app \<Rightarrow> app" where
  "upload_timeout loc c s =
     fetchStats loc (fetchResults loc (cl_filterType c)
       (s\<lparr>isUploading := False, uploadProgress := 0, activeTab := ''results'',
          scheduled := None\<rparr>))"

subsection \<open>Events\<close>

datatype tab = TabDashboard | TabUpload | TabResults | TabLogs

fun tab_name :: "tab \<Rightarrow> string" where
  "tab_name TabDashboard = ''dashboard''"
| "tab_name TabUpload = ''upload''"
| "tab_name TabResults = ''results''"
| "tab_name TabLogs = ''logs''"

datatype doc_button = BtnInvoice | BtnContract | BtnCrac

fun doc_button_type :: "doc_button \<Rightarrow> string" where
  "doc_button_type BtnInvoice = ''invoice''"
| "doc_button_type BtnContract = ''contract''"
| "doc_button_type BtnCrac = ''crac''"

datatype filter_tab = FilterAll | FilterInvoices | FilterContracts | FilterCracs

fun filter_tab_type :: "filter_tab \<Rightarrow> jsval" where
  "filter_tab_type FilterAll = JNull"
| "filter_tab_type FilterInvoices = JStr ''invoice''"
| "filter_tab_type FilterContracts = JStr ''contract''"
| "filter_tab_type FilterCracs = JStr ''crac''"

text \<open>
  \<^verbatim>\<open>setFilterType\<close>: a changed value re-runs the effect that depends on \<^verbatim>\<open>filterType\<close>,
  which fetches stats and results again; an unchanged value does nothing.
\<close>

definition setFilterType :: "location \<Rightarrow> jsval \<Rightarrow> app \<Rightarrow> app" where
  "setFilterType loc v s =
     (if filterType s = v then s
      else fetchResults loc v (fetchStats loc (s\<lparr>filterType := v\<rparr>)))"

text \<open>
  What can happen to the component. The doc-type buttons and the file input are rendered
  only on the upload tab while no upload is shown; the filter tabs only on the results tab.
  A timer or a promise fires only while it is pending. \<open>step\<close> is \<open>None\<close> for an event
  that cannot happen in the state.
\<close>

datatype event =
    ClickTab tab
  | ClickDocType doc_button
  | ClickFilter filter_tab
  | FileInputChange "js_file option"
  | IntervalTick
  | UploadResolved jsval string
  | UploadRejected caught
  | TimeoutElapsed
  | WsMessage jsval string

fun step :: "host \<Rightarrow> location \<Rightarrow> app \<Rightarrow> event \<Rightarrow> app option" where
  "step h loc s (ClickTab t) = Some (s\<lparr>activeTab := tab_name t\<rparr>)"
| "step h loc s (ClickDocType b) =
     (if activeTab s = ''upload'' \<and> \<not> isUploading s
      then Some (s\<lparr>selectedDocType := doc_button_type b\<rparr>) else None)"
| "step h loc s (ClickFilter f) =
     (if activeTab s = ''results'' then Some (setFilterType loc (filter_tab_type f) s) else None)"
| "step h loc s (FileInputChange chosen) =
     (if activeTab s = ''upload'' \<and> \<not> isUploading s
      then Some (handleFileUpload loc chosen s) else None)"
| "step h loc s IntervalTick =
     (if progressInterval s
      then Some (s\<lparr>uploadProgress := progress_tick (uploadProgress s)\<rparr>) else None)"
| "step h loc s (UploadResolved data now) =
     (case awaiting s of None \<Rightarrow> None | Some c \<Rightarrow> Some (upload_resolved h c data now s))"
| "step h loc s (UploadRejected err) =
     (case awaiting s of None \<Rightarrow> None | Some c \<Rightarrow> Some (upload_catch h err s))"
| "step h loc s TimeoutElapsed =
     (case scheduled s of None \<Rightarrow> None | Some c \<Rightarrow> Some (upload_timeout loc c s))"
| "step h loc s (WsMessage message now) =
     Some (case ws_callback h now message (ocrLogs s) of
             Inl e \<Rightarrow> s
           | Inr logs \<Rightarrow> s\<lparr>ocrLogs := logs\<rparr>)"

fun run :: "host \<Rightarrow> location \<Rightarrow> app \<Rightarrow> event list \<Rightarrow> app option" where
  "run h loc s [] = Some s"
| "run h loc s (e # es) =
     (case step h loc s e of None \<Rightarrow> None | Some s' \<Rightarrow> run h loc s' es)"

inductive reachable :: "host \<Rightarrow> location \<Rightarrow> app \<Rightarrow> bool" for h loc where
  reachable_mounted: "reachable h loc (mounted loc)"
| reachable_step: "reachable h loc s \<Longrightarrow> step h loc s e = Some s' \<Longrightarrow> reachable h loc s'"

subsection \<open>A result row\<close>

text \<open>
  The \<^verbatim>\<open>confidence\<close> prop of \<^verbatim>\<open>ResultRow\<close>:
  \<^verbatim>\<open>(res.structured_data?.confidence * 100 || 95).toFixed(1) + '%'\<close>.
\<close>

definition ResultRow_confidence :: "host \<Rightarrow> jsval \<Rightarrow> js_error + string" where
  "ResultRow_confidence h res =
     (case member res ''structured_data'' of
        Inl e \<Rightarrow> Inl e
      | Inr sd \<Rightarrow>
          (case to_number h (opt_member sd ''confidence'') of
             Inl e \<Rightarrow> Inl e
           | Inr n \<Rightarrow>
               let x = js_mul n (Fin 100);
                   y = (if truthy (JNum x) then x else Fin 95)
               in Inr (to_fixed1 h y @ ''%'')))"


section \<open>The progress line as the specification words it\<close>

text \<open>
  The specification has the handler prepend, for every \<^verbatim>\<open>batch_update\<close> message, a line
  "showing the current file (or \<^verbatim>\<open>Processing...\<close> when \<^verbatim>\<open>current_file\<close> is absent) and the
  progress percentage". Read literally, with absent as a read that gives \<^verbatim>\<open>undefined\<close>,
  that is the function below, which is compared with \<open>ws_callback\<close>.
\<close>

definition process_line_spec :: "host \<Rightarrow> string \<Rightarrow> jsval \<Rightarrow> js_error + string" where
  "process_line_spec h now message =
     (case to_string h (if get_prop message ''current_file'' = JUndefined
                        then JStr ''Processing...'' else get_prop message ''current_file'') of
        Inl e \<Rightarrow> Inl e
      | Inr f \<Rightarrow>
          (case to_string h (get_prop message ''progress_pct'') of
             Inl e \<Rightarrow> Inl e
           | Inr p \<Rightarrow> Inr (''['' @ now @ ''] PROCESS: '' @ f @ '' ('' @ p @ ''%)'')))"


section \<open>The Result Store\<close>

text \<open>
  Modelled from the spec: the Result Store of the processing core (section 4.3 of the
  specification) is not among the sources; the client only displays the four numbers of
  the \<^verbatim>\<open>stats\<close> response. A Result carries the fields the store's operations read.
\<close>

datatype doc_type = Invoice | Contract | Crac

record result =
  result_id :: nat
  result_file_name :: string
  result_doc_type :: doc_type
  processed_at :: nat

type_synonym result_store = "result list"

datatype store_error = NotFound

text \<open>
  Modelled from the spec: \<^verbatim>\<open>save(result)\<close> persists a Result keyed by id, exactly once; a
  second save under the same id leaves the store as it is.
\<close>

definition save_result :: "result \<Rightarrow> result_store \<Rightarrow> result_store" where
  "save_result r st = (if list_ex (\<lambda>x. result_id x = result_id r) st then st else st @ [r])"

text \<open>
  Modelled from the spec: \<^verbatim>\<open>get(id)\<close> returns the Result or fails with \<^verbatim>\<open>NotFound\<close>.
\<close>

definition get_result :: "nat \<Rightarrow> result_store \<Rightarrow> store_error + result" where
  "get_result i st =
     (case find (\<lambda>x. result_id x = i) st of None \<Rightarrow> Inl NotFound | Some r \<Rightarrow> Inr r)"

text \<open>
  Modelled from the spec: \<^verbatim>\<open>delete(id)\<close> removes the Result, idempotently; deleting an id
  that is not stored is not an error.
\<close>

definition delete_result :: "nat \<Rightarrow> result_store \<Rightarrow> result_store" where
  "delete_result i st = filter (\<lambda>x. result_id x \<noteq> i) st"

text \<open>
  Modelled from the spec: \<^verbatim>\<open>list(filter: doc_type?)\<close> returns the Results, optionally
  only those of one type, ordered by \<^verbatim>\<open>processed_at\<close> descending.
\<close>

definition list_results :: "doc_type option \<Rightarrow> result_store \<Rightarrow> result list" where
  "list_results flt st =
     sort_key (\<lambda>x. - int (processed_at x))
       (filter (\<lambda>x. case flt of None \<Rightarrow> True | Some t \<Rightarrow> result_doc_type x = t) st)"

text \<open>
  Modelled from the spec: \<^verbatim>\<open>aggregateCounts()\<close> returns the total Result count and the
  count of each type, computed from the stored Results. The fields are those of the
  client's \<^verbatim>\<open>stats\<close> state.
\<close>

record counts =
  total_files :: nat
  invoice :: nat
  contract :: nat
  crac :: nat

definition count_of_type :: "doc_type \<Rightarrow> result_store \<Rightarrow> nat" where
  "count_of_type t st = length (filter (\<lambda>x. result_doc_type x = t) st)"

definition aggregateCounts :: "result_store \<Rightarrow> counts" where
  "aggregateCounts st =
     \<lparr>total_files = length st, invoice = count_of_type Invoice st,
      contract = count_of_type Contract st, crac = count_of_type Crac st\<rparr>"

text \<open>
  Modelled from the spec: a sequence of creates and deletes, applied to the empty store.
\<close>

datatype store_op = Create result | Delete nat

fun apply_store_op :: "result_store \<Rightarrow> store_op \<Rightarrow> result_store" where
  "apply_store_op st (Create r) = save_result r st"
| "apply_store_op st (Delete i) = delete_result i st"

definition store_after :: "store_op list \<Rightarrow> result_store" where
  "store_after ops = foldl apply_store_op [] ops"


section \<open>Invariants of the component\<close>

text \<open>
  The interval runs exactly while the upload request is in flight; the upload is shown
  exactly while the request is in flight or the timeout is scheduled; while in flight the
  progress is a multiple of 5 between 10 and 90, and once the timeout is scheduled it is
  100.
\<close>

definition upload_inv :: "app \<Rightarrow> bool" where
  "upload_inv s =
     (progressInterval s = (awaiting s \<noteq> None)
      \<and> isUploading s = (awaiting s \<noteq> None \<or> scheduled s \<noteq> None)
      \<and> (if awaiting s \<noteq> None
          then scheduled s = None \<and> 10 \<le> uploadProgress s \<and> uploadProgress s \<le> 90
               \<and> uploadProgress s mod 5 = 0
          else scheduled s = None \<or> uploadProgress s = 100))"

definition doc_type_names :: "string list" where
  "doc_type_names = [''invoice'', ''contract'', ''crac'']"

text \<open>
  The selected type is one of the three names, and so is the \<^verbatim>\<open>doc_type\<close> of every
  request that is not a GET.
\<close>

definition doc_type_inv :: "location \<Rightarrow> app \<Rightarrow> bool" where
  "doc_type_inv loc s =
     (selectedDocType s \<in> set doc_type_names
      \<and> list_all (\<lambda>r. req_method r = GET \<or>
            list_ex (\<lambda>t. req_url r = ''process/upload?doc_type='' @ t) doc_type_names) (outbox s))"


section \<open>A host and a page for evaluation\<close>

text \<open>
  A host to run the definitions on: any non-integer number prints as \<^verbatim>\<open>0.5\<close>, no string
  denotes a number, and the engine's error texts are the ones below. The page is served by
  the development server.
\<close>

definition sample_host :: host where
  "sample_host =
     \<lparr>number_text = (\<lambda>q. ''0.5''), string_number = (\<lambda>s. NaN),
      type_error_text =
        (\<lambda>t. case t of
           ReadOfNullish \<Rightarrow> ''Cannot read properties of undefined''
         | NoPrimitive \<Rightarrow> ''Cannot convert object to primitive value'')\<rparr>"

definition sample_page :: location where
  "sample_page = \<lparr>hostname = ''localhost'', port = ''5173''\<rparr>"


section \<open>Properties\<close>

subsection \<open>Evaluation and reachability lemmas\<close>

lemma rat_floor_numeral_div [simp]:
  "\<lfloor>numeral a / numeral b :: rat\<rfloor> = numeral a div numeral b"
  by (metis floor_divide_of_int_eq of_int_numeral)

lemma rat_floor_one_div [simp]: "\<lfloor>1 / numeral b :: rat\<rfloor> = 1 div numeral b"
  by (metis floor_divide_of_int_eq of_int_1 of_int_numeral)

lemmas js_eval = show_nat.simps digit_char_def is_integer_def Let_def

lemmas handler_defs =
  handleFileUpload_def upload_resolved_def upload_timeout_def
  setFilterType_def fetchStats_def fetchResults_def progress_tick_def ws_callback_def

lemma upload_catch_fields [simp]:
  "progressInterval (upload_catch h err s) = False"
  "isUploading (upload_catch h err s) = False"
  "awaiting (upload_catch h err s) = None"
  "scheduled (upload_catch h err s) = scheduled s"
  "uploadProgress (upload_catch h err s) = uploadProgress s"
  "activeTab (upload_catch h err s) = activeTab s"
  "outbox (upload_catch h err s) = outbox s"
  "ocrLogs (upload_catch h err s) = ocrLogs s"
  "filterType (upload_catch h err s) = filterType s"
  "selectedDocType (upload_catch h err s) = selectedDocType s"
  by (simp_all add: upload_catch_def Let_def split: sum.splits)

lemma dev_port_range:
  "map show_nat [5173..<5180] =
     [''5173'', ''5174'', ''5175'', ''5176'', ''5177'', ''5178'', ''5179'']"
  by (simp add: js_eval upt_rec)

lemma show_nat_digit: "n < 10 \<Longrightarrow> show_nat n = [digit_char n]"
  by (simp add: show_nat.simps)

lemma to_fixed1_95: "to_fixed1 h (Fin 95) = ''95.0''"
  by (simp add: js_eval)

lemma member_of_prop: "get_prop message k = JStr v \<Longrightarrow> member message k = Inr (JStr v)"
  by (cases message) (simp_all add: member_def)

lemma run_reachable:
  "reachable h loc s \<Longrightarrow> run h loc s es = Some s' \<Longrightarrow> reachable h loc s'"
proof (induction es arbitrary: s)
  case Nil
  then show ?case by simp
next
  case (Cons e es)
  then show ?case
    by (auto split: option.splits intro: reachable_step)
qed

subsection \<open>The backend port\<close>

text \<open>
  Claim C8. For every page location, \<open>getBackendPort\<close> is \<^verbatim>\<open>8003\<close> when the page's port
  is one of the decimal texts of 5173 to 5179, or \<^verbatim>\<open>3000\<close>, or \<^verbatim>\<open>3001\<close>; otherwise it is
  the page's own port, or \<^verbatim>\<open>8001\<close> when the page's port is the empty string. The base URL
  of every HTTP request and the websocket URL are built from this one value.
\<close>

theorem getBackendPort_cases:
  "getBackendPort loc =
     (if port loc \<in> set (map show_nat [5173..<5180]) \<union> {''3000'', ''3001''} then ''8003''
      else if port loc = [] then ''8001'' else port loc)
   \<and> API_BASE_URL loc = ''http://'' @ hostname loc @ '':'' @ getBackendPort loc @ ''/api''
   \<and> websocket_url loc = ''ws://'' @ hostname loc @ '':'' @ getBackendPort loc @ ''/ws/batches''
   \<and> req_base (getStats loc) = API_BASE_URL loc
   \<and> req_base (getResults loc ft) = API_BASE_URL loc
   \<and> req_base (uploadFile loc f t) = API_BASE_URL loc"
  unfolding dev_port_range
  by (simp add: getBackendPort_def frontend_dev_ports_def API_BASE_URL_def websocket_url_def
      BACKEND_PORT_def getStats_def getResults_def uploadFile_def Let_def)

theorem getBackendPort_cases_witness:
  "getBackendPort \<lparr>hostname = ''localhost'', port = ''5176''\<rparr> = ''8003''
   \<and> getBackendPort \<lparr>hostname = ''localhost'', port = ''''\<rparr> = ''8001''
   \<and> getBackendPort \<lparr>hostname = ''localhost'', port = ''8080''\<rparr> = ''8080''
   \<and> API_BASE_URL \<lparr>hostname = ''localhost'', port = ''3000''\<rparr> = ''http://localhost:8003/api''
   \<and> websocket_url \<lparr>hostname = ''localhost'', port = ''3000''\<rparr>
       = ''ws://localhost:8003/ws/batches''"
  using getBackendPort_cases [of "\<lparr>hostname = ''localhost'', port = ''5176''\<rparr>", unfolded dev_port_range]
        getBackendPort_cases [of "\<lparr>hostname = ''localhost'', port = ''''\<rparr>", unfolded dev_port_range]
        getBackendPort_cases [of "\<lparr>hostname = ''localhost'', port = ''8080''\<rparr>", unfolded dev_port_range]
        getBackendPort_cases [of "\<lparr>hostname = ''localhost'', port = ''3000''\<rparr>", unfolded dev_port_range]
  by simp

subsection \<open>Values with and without a text\<close>

lemmas fl_eval = to_double_def scale_up.simps scale_down.simps round_half_even_def pow2_def

lemma collect_map_Inr:
  "list_all (\<lambda>x. \<exists>a. f x = Inr a) xs \<Longrightarrow> \<exists>as. collect (map f xs) = Inr as"
  by (induction xs) auto

lemma collect_map_all:
  "collect (map f xs) = Inr as \<Longrightarrow> list_all (\<lambda>x. \<exists>a. f x = Inr a) xs"
  by (induction xs arbitrary: as) (auto split: sum.splits)

lemma has_text_iff: "has_text v \<longleftrightarrow> (\<exists>t. to_string h v = Inr t)"
proof (induction v)
  case (JArr xs)
  let ?g = "\<lambda>x. if nullish x then Inr '''' else to_string h x"
  have g: "has_text x \<longleftrightarrow> (\<exists>a. ?g x = Inr a)" if "x \<in> set xs" for x
  proof (cases "nullish x")
    case True
    then show ?thesis by (cases x) simp_all
  next
    case False
    then show ?thesis using JArr [OF that] by simp
  qed
  show ?case
  proof
    assume "has_text (JArr xs)"
    then have "list_all (\<lambda>x. \<exists>a. ?g x = Inr a) xs"
      using g by (simp add: list_all_iff)
    from collect_map_Inr [OF this] show "\<exists>t. to_string h (JArr xs) = Inr t"
      by auto
  next
    assume "\<exists>t. to_string h (JArr xs) = Inr t"
    then obtain ss where "collect (map ?g xs) = Inr ss"
      by (auto split: sum.splits)
    from collect_map_all [OF this] show "has_text (JArr xs)"
      using g by (simp add: list_all_iff)
  qed
qed auto

lemma has_text_to_number: "has_text v \<longleftrightarrow> (\<exists>n. to_number h v = Inr n)"
proof (cases v)
  case (JArr xs)
  then show ?thesis
    using has_text_iff [of "JArr xs" h]
    by (auto simp del: has_text.simps to_string.simps split: sum.splits)
qed auto

lemma no_text_throws: "\<not> has_text v \<Longrightarrow> \<exists>e. to_string h v = Inl e"
  using has_text_iff [of v h] by (cases "to_string h v") auto

lemma no_text_truthy: "\<not> has_text v \<Longrightarrow> truthy v"
  by (cases v) auto

lemma falsy_text: "\<not> truthy v \<Longrightarrow> has_text v"
  by (cases v) auto

lemma to_double_100: "to_double 100 = Fin 100"
  by (simp add: fl_eval)

lemma to_fixed1_100: "to_fixed1 h (Fin 100) = ''100.0''"
  by (simp add: js_eval)

subsection \<open>The neural-stream log\<close>

text \<open>
  Claim C10. After a \<^verbatim>\<open>batch_update\<close> message whose \<^verbatim>\<open>current_file\<close> and
  \<^verbatim>\<open>progress_pct\<close> have a text, the log holds at most 50 lines, the new line first;
  behind it come the 49 newest of the lines held before, and the older ones are gone.
\<close>

theorem batch_update_log_bounded:
  assumes "get_prop message ''type'' = JStr ''batch_update''"
    and "has_text (get_prop message ''current_file'')"
    and "has_text (get_prop message ''progress_pct'')"
  shows "\<exists>s' line. process_line h now message = Inr line
           \<and> step h loc s (WsMessage message now) = Some s'
           \<and> ocrLogs s' = line # take 49 (ocrLogs s)
           \<and> length (ocrLogs s') \<le> 50
           \<and> hd (ocrLogs s') = line"
proof -
  have "has_text (js_or (get_prop message ''current_file'') (JStr ''Processing...''))"
    using assms(2) by (simp add: js_or_def)
  then obtain f where f:
    "to_string h (js_or (get_prop message ''current_file'') (JStr ''Processing...'')) = Inr f"
    using has_text_iff by blast
  obtain p where p: "to_string h (get_prop message ''progress_pct'') = Inr p"
    using assms(3) has_text_iff by blast
  have "process_line h now message = Inr (''['' @ now @ ''] PROCESS: '' @ f @ '' ('' @ p @ ''%)'')"
    using f p by (simp add: process_line_def)
  then show ?thesis
    using assms(1) by (simp add: ws_callback_def member_of_prop take_Cons')
qed

theorem batch_update_log_bounded_witness:
  "has_text (JStr ''a.pdf'') \<and> has_text (JNum (Fin 40))
   \<and> map_option (length \<circ> ocrLogs)
        (step sample_host sample_page ((mounted sample_page)\<lparr>ocrLogs := replicate 55 ''old''\<rparr>)
           (WsMessage (JObj [(''type'', JStr ''batch_update''), (''current_file'', JStr ''a.pdf''),
                             (''progress_pct'', JNum (Fin 40))]) ''10:15:00'')) = Some 50
   \<and> map_option (hd \<circ> ocrLogs)
        (step sample_host sample_page ((mounted sample_page)\<lparr>ocrLogs := replicate 55 ''old''\<rparr>)
           (WsMessage (JObj [(''type'', JStr ''batch_update''), (''current_file'', JStr ''a.pdf''),
                             (''progress_pct'', JNum (Fin 40))]) ''10:15:00''))
       = Some ''[10:15:00] PROCESS: a.pdf (40%)''"
proof -
  let ?m = "JObj [(''type'', JStr ''batch_update''), (''current_file'', JStr ''a.pdf''),
                   (''progress_pct'', JNum (Fin 40))]"
  let ?s = "(mounted sample_page)\<lparr>ocrLogs := replicate 55 ''old''\<rparr>"
  have t: "get_prop ?m ''type'' = JStr ''batch_update''" by simp
  have c: "has_text (get_prop ?m ''current_file'')" by simp
  have p: "has_text (get_prop ?m ''progress_pct'')" by simp
  have l: "process_line sample_host ''10:15:00'' ?m = Inr ''[10:15:00] PROCESS: a.pdf (40%)''"
    by (simp add: process_line_def js_or_def js_eval)
  from batch_update_log_bounded [OF t c p, of sample_host "''10:15:00''" sample_page ?s]
  obtain s' line where "process_line sample_host ''10:15:00'' ?m = Inr line"
     and "step sample_host sample_page ?s (WsMessage ?m ''10:15:00'') = Some s'"
     and "ocrLogs s' = line # take 49 (ocrLogs ?s)"
    by blast
  then show ?thesis using l by simp
qed

text \<open>
  Claim C1, as the specification words it, fails in three ways. A message whose
  \<^verbatim>\<open>current_file\<close> is there but is the empty string gets the line with
  \<^verbatim>\<open>Processing...\<close>, not the line with its current file. A message whose
  \<^verbatim>\<open>current_file\<close> is an object with an own \<^verbatim>\<open>toString\<close> property gets no line: the
  callback throws. And a line put before a log of 50 lines pushes the last of them out:
  the new log is not the old one with a line prepended.
\<close>

theorem ws_callback_counterexample:
  "ws_callback sample_host ''10:15:00''
     (JObj [(''type'', JStr ''batch_update''), (''current_file'', JStr ''''),
            (''progress_pct'', JNum (Fin 40))]) []
     = Inr [''[10:15:00] PROCESS: Processing... (40%)'']
   \<and> process_line_spec sample_host ''10:15:00''
     (JObj [(''type'', JStr ''batch_update''), (''current_file'', JStr ''''),
            (''progress_pct'', JNum (Fin 40))])
     = Inr ''[10:15:00] PROCESS:  (40%)''
   \<and> ws_callback sample_host ''10:15:00''
     (JObj [(''type'', JStr ''batch_update''), (''current_file'', JObj [(''toString'', JNum (Fin 1))]),
            (''progress_pct'', JNum (Fin 40))]) [''old'']
     = Inl (TypeError NoPrimitive)
   \<and> ws_callback sample_host ''10:15:00''
     (JObj [(''type'', JStr ''batch_update''), (''current_file'', JStr ''a.pdf''),
            (''progress_pct'', JNum (Fin 40))]) (replicate 50 ''old'')
     = Inr (''[10:15:00] PROCESS: a.pdf (40%)'' # replicate 49 ''old'')
   \<and> ws_callback sample_host ''10:15:00''
     (JObj [(''type'', JStr ''batch_update''), (''current_file'', JStr ''a.pdf''),
            (''progress_pct'', JNum (Fin 40))]) (replicate 50 ''old'')
     \<noteq> Inr (''[10:15:00] PROCESS: a.pdf (40%)'' # replicate 50 ''old'')"
  by (simp add: ws_callback_def member_def process_line_def process_line_spec_def js_or_def
      has_own_def js_eval)

text \<open>
  Claim C1, amended. For every \<^verbatim>\<open>batch_update\<close> message whose \<^verbatim>\<open>current_file\<close> and
  \<^verbatim>\<open>progress_pct\<close> have a text, the callback prepends a PROCESS line and keeps the first
  50 lines; the line shows the text of the current file when \<^verbatim>\<open>current_file\<close> is truthy
  and \<^verbatim>\<open>Processing...\<close> when it is absent or any other falsy value, and then the text of
  the progress percentage. It shows a file name that is a non-empty string as it is, and
  a number by \<^verbatim>\<open>Number::toString\<close>. For a message with a value without text the callback
  throws. For a \<^verbatim>\<open>connected\<close> message it prepends the connection-established line.
\<close>

theorem ws_callback_lines:
  "(get_prop message ''type'' = JStr ''batch_update''
      \<and> has_text (get_prop message ''current_file'')
      \<and> has_text (get_prop message ''progress_pct'') \<longrightarrow>
      (\<exists>f p. to_string h (get_prop message ''current_file'') = Inr f
         \<and> to_string h (get_prop message ''progress_pct'') = Inr p
         \<and> ws_callback h now message prev =
             Inr (take 50 ((''['' @ now @ ''] PROCESS: ''
                    @ (if truthy (get_prop message ''current_file'') then f else ''Processing...'')
                    @ '' ('' @ p @ ''%)'') # prev))))
   \<and> (\<forall>name n. get_prop message ''type'' = JStr ''batch_update''
        \<and> get_prop message ''current_file'' = JStr name \<and> name \<noteq> []
        \<and> get_prop message ''progress_pct'' = JNum n \<longrightarrow>
      ws_callback h now message prev =
        Inr (take 50 ((''['' @ now @ ''] PROCESS: '' @ name
               @ '' ('' @ number_to_string h n @ ''%)'') # prev)))
   \<and> (\<forall>n. get_prop message ''type'' = JStr ''batch_update''
        \<and> get_prop message ''current_file'' = JUndefined
        \<and> get_prop message ''progress_pct'' = JNum n \<longrightarrow>
      ws_callback h now message prev =
        Inr (take 50 ((''['' @ now @ ''] PROCESS: Processing... (''
               @ number_to_string h n @ ''%)'') # prev)))
   \<and> (get_prop message ''type'' = JStr ''batch_update''
        \<and> \<not> (has_text (get_prop message ''current_file'')
              \<and> has_text (get_prop message ''progress_pct'')) \<longrightarrow>
      (\<exists>e. ws_callback h now message prev = Inl e))
   \<and> (get_prop message ''type'' = JStr ''connected'' \<longrightarrow>
      ws_callback h now message prev =
        Inr ((''['' @ now @ ''] SYSTEM: Neural Connection Established'') # prev))"
proof (intro conjI impI allI)
  assume a: "get_prop message ''type'' = JStr ''batch_update''
      \<and> has_text (get_prop message ''current_file'')
      \<and> has_text (get_prop message ''progress_pct'')"
  then obtain f p where f: "to_string h (get_prop message ''current_file'') = Inr f"
    and p: "to_string h (get_prop message ''progress_pct'') = Inr p"
    using has_text_iff by blast
  have "ws_callback h now message prev =
             Inr (take 50 ((''['' @ now @ ''] PROCESS: ''
                    @ (if truthy (get_prop message ''current_file'') then f else ''Processing...'')
                    @ '' ('' @ p @ ''%)'') # prev))"
    using a f p by (simp add: ws_callback_def member_of_prop process_line_def js_or_def)
  with f p show "\<exists>f p. to_string h (get_prop message ''current_file'') = Inr f
         \<and> to_string h (get_prop message ''progress_pct'') = Inr p
         \<and> ws_callback h now message prev =
             Inr (take 50 ((''['' @ now @ ''] PROCESS: ''
                    @ (if truthy (get_prop message ''current_file'') then f else ''Processing...'')
                    @ '' ('' @ p @ ''%)'') # prev))"
    by blast
next
  fix name n
  assume "get_prop message ''type'' = JStr ''batch_update''
        \<and> get_prop message ''current_file'' = JStr name \<and> name \<noteq> []
        \<and> get_prop message ''progress_pct'' = JNum n"
  then show "ws_callback h now message prev =
        Inr (take 50 ((''['' @ now @ ''] PROCESS: '' @ name
               @ '' ('' @ number_to_string h n @ ''%)'') # prev))"
    by (simp add: ws_callback_def member_of_prop process_line_def js_or_def)
next
  fix n
  assume "get_prop message ''type'' = JStr ''batch_update''
        \<and> get_prop message ''current_file'' = JUndefined
        \<and> get_prop message ''progress_pct'' = JNum n"
  then show "ws_callback h now message prev =
        Inr (take 50 ((''['' @ now @ ''] PROCESS: Processing... (''
               @ number_to_string h n @ ''%)'') # prev))"
    by (simp add: ws_callback_def member_of_prop process_line_def js_or_def)
next
  assume a: "get_prop message ''type'' = JStr ''batch_update''
        \<and> \<not> (has_text (get_prop message ''current_file'')
              \<and> has_text (get_prop message ''progress_pct''))"
  have "\<exists>e. process_line h now message = Inl e"
  proof (cases "has_text (get_prop message ''current_file'')")
    case False
    then obtain e where "to_string h (get_prop message ''current_file'') = Inl e"
      using no_text_throws by blast
    with False show ?thesis
      by (simp add: process_line_def js_or_def no_text_truthy)
  next
    case True
    with a obtain e where "to_string h (get_prop message ''progress_pct'') = Inl e"
      using no_text_throws by blast
    then show ?thesis
      by (simp add: process_line_def split: sum.splits)
  qed
  then show "\<exists>e. ws_callback h now message prev = Inl e"
    using a by (auto simp: ws_callback_def member_of_prop)
next
  assume "get_prop message ''type'' = JStr ''connected''"
  then show "ws_callback h now message prev =
        Inr ((''['' @ now @ ''] SYSTEM: Neural Connection Established'') # prev)"
    by (simp add: ws_callback_def member_of_prop connected_line_def)
qed

theorem ws_callback_lines_witness:
  "ws_callback sample_host ''10:15:00''
     (JObj [(''type'', JStr ''batch_update''), (''current_file'', JStr ''a.pdf''),
            (''progress_pct'', JNum (Fin 40))]) [''old'']
     = Inr [''[10:15:00] PROCESS: a.pdf (40%)'', ''old'']
   \<and> ws_callback sample_host ''10:15:00''
     (JObj [(''type'', JStr ''batch_update''), (''progress_pct'', JNum (Fin 40))]) [''old'']
     = Inr [''[10:15:00] PROCESS: Processing... (40%)'', ''old'']
   \<and> ws_callback sample_host ''10:15:00''
     (JObj [(''type'', JStr ''batch_update''), (''current_file'', JNull),
            (''progress_pct'', JStr ''40.5'')]) [''old'']
     = Inr [''[10:15:00] PROCESS: Processing... (40.5%)'', ''old'']
   \<and> ws_callback sample_host ''10:15:00''
     (JObj [(''type'', JStr ''batch_update''),
            (''current_file'', JArr [JStr ''a.pdf'', JNull, JBool True, JObj []])]) [''old'']
     = Inr [''[10:15:00] PROCESS: a.pdf,,true,[object Object] (undefined%)'', ''old'']
   \<and> ws_callback sample_host ''10:15:00'' (JObj [(''type'', JStr ''connected'')]) [''old'']
     = Inr [''[10:15:00] SYSTEM: Neural Connection Established'', ''old'']"
  using ws_callback_lines [of "JObj [(''type'', JStr ''batch_update''), (''current_file'', JStr ''a.pdf''),
            (''progress_pct'', JNum (Fin 40))]" sample_host "''10:15:00''" "[''old'']"]
        ws_callback_lines [of "JObj [(''type'', JStr ''batch_update''), (''progress_pct'', JNum (Fin 40))]"
            sample_host "''10:15:00''" "[''old'']"]
        ws_callback_lines [of "JObj [(''type'', JStr ''batch_update''), (''current_file'', JNull),
            (''progress_pct'', JStr ''40.5'')]" sample_host "''10:15:00''" "[''old'']"]
        ws_callback_lines [of "JObj [(''type'', JStr ''batch_update''),
            (''current_file'', JArr [JStr ''a.pdf'', JNull, JBool True, JObj []])]"
            sample_host "''10:15:00''" "[''old'']"]
        ws_callback_lines [of "JObj [(''type'', JStr ''connected'')]" sample_host "''10:15:00''" "[''old'']"]
  by (simp add: js_eval has_own_def)

subsection \<open>The upload progress\<close>

lemma upload_inv_mounted: "upload_inv (mounted loc)"
  by (simp add: upload_inv_def mounted_def fetchStats_def fetchResults_def)

lemma upload_inv_step:
  assumes "upload_inv s" and "step h loc s e = Some s'"
  shows "upload_inv s'"
proof (cases e)
  case (ClickTab t)
  with assms show ?thesis by (auto simp: upload_inv_def)
next
  case (ClickDocType b)
  with assms show ?thesis by (auto simp: upload_inv_def split: if_splits)
next
  case (ClickFilter f)
  with assms show ?thesis by (auto simp: upload_inv_def handler_defs split: if_splits)
next
  case (FileInputChange chosen)
  with assms show ?thesis
    by (cases chosen) (auto simp: upload_inv_def handler_defs split: if_splits)
next
  case IntervalTick
  with assms show ?thesis
    by (auto simp: upload_inv_def handler_defs split: if_splits)
next
  case (UploadResolved d t)
  with assms show ?thesis
    by (auto simp: upload_inv_def handler_defs Let_def member_def split: if_splits option.splits sum.splits)
next
  case (UploadRejected err)
  with assms show ?thesis
    by (auto simp: upload_inv_def handler_defs split: if_splits option.splits sum.splits)
next
  case TimeoutElapsed
  with assms show ?thesis
    by (auto simp: upload_inv_def handler_defs split: if_splits option.splits sum.splits)
next
  case (WsMessage m t)
  with assms show ?thesis
    by (auto simp: upload_inv_def split: sum.splits)
qed

lemma reachable_upload_inv: "reachable h loc s \<Longrightarrow> upload_inv s"
  by (induction rule: reachable.induct) (auto intro: upload_inv_mounted upload_inv_step)

text \<open>
  Claim C2. In every reachable state, a step between two states that both show an
  upload never lowers the progress, and the progress of a state that shows an upload is
  between 0 and 100. Choosing a file sets it to 10; a tick adds 5 below 90 and changes
  nothing otherwise; a successful response sets it to 100, after which neither a tick
  nor a second response can happen; and no other event brings it to 100.
\<close>

theorem upload_progress_monotone:
  assumes "reachable h loc s" and "step h loc s e = Some s'"
  shows "(isUploading s \<and> isUploading s' \<longrightarrow> uploadProgress s \<le> uploadProgress s')
       \<and> (isUploading s' \<longrightarrow> 0 \<le> uploadProgress s' \<and> uploadProgress s' \<le> 100)
       \<and> (\<forall>f. e = FileInputChange (Some f) \<longrightarrow> uploadProgress s' = 10)
       \<and> (e = IntervalTick \<longrightarrow>
            uploadProgress s' = (if uploadProgress s < 90 then uploadProgress s + 5 else uploadProgress s))
       \<and> (\<forall>d t. e = UploadResolved d t \<longrightarrow>
            uploadProgress s' = 100 \<and> step h loc s' IntervalTick = None
            \<and> (\<forall>d' t'. step h loc s' (UploadResolved d' t') = None))
       \<and> (isUploading s' \<and> uploadProgress s' = 100 \<and> uploadProgress s \<noteq> 100 \<longrightarrow>
            (\<exists>d t. e = UploadResolved d t))"
proof -
  have inv: "upload_inv s" using assms(1) by (rule reachable_upload_inv)
  show ?thesis
  proof (cases e)
    case (ClickTab t)
    with assms(2) inv show ?thesis by (auto simp: upload_inv_def split: if_splits)
  next
    case (ClickDocType b)
    with assms(2) inv show ?thesis by (auto simp: upload_inv_def split: if_splits)
  next
    case (ClickFilter f)
    with assms(2) inv show ?thesis by (auto simp: upload_inv_def handler_defs split: if_splits)
  next
    case (FileInputChange chosen)
    with assms(2) inv show ?thesis
      by (cases chosen) (auto simp: upload_inv_def handler_defs split: if_splits)
  next
    case IntervalTick
    with assms(2) inv show ?thesis by (auto simp: upload_inv_def handler_defs split: if_splits)
  next
    case (UploadResolved d t)
    with assms(2) inv show ?thesis
      by (auto simp: upload_inv_def handler_defs Let_def member_def split: if_splits option.splits sum.splits)
  next
    case (UploadRejected err)
    with assms(2) inv show ?thesis
      by (auto simp: upload_inv_def handler_defs split: if_splits option.splits sum.splits)
  next
    case TimeoutElapsed
    with assms(2) inv show ?thesis
      by (auto simp: upload_inv_def handler_defs split: if_splits option.splits sum.splits)
  next
    case (WsMessage m t)
    with assms(2) inv show ?thesis
      by (auto simp: upload_inv_def split: sum.splits)
  qed
qed

theorem upload_progress_monotone_witness:
  "map_option (\<lambda>s. (isUploading s, uploadProgress s))
     (run sample_host sample_page (mounted sample_page)
       [ClickTab TabUpload, FileInputChange (Some \<lparr>file_name = ''a.pdf''\<rparr>), IntervalTick])
     = Some (True, 15)
   \<and> map_option (\<lambda>s. (isUploading s, uploadProgress s))
     (run sample_host sample_page (mounted sample_page)
       [ClickTab TabUpload, FileInputChange (Some \<lparr>file_name = ''a.pdf''\<rparr>), IntervalTick,
        IntervalTick])
     = Some (True, 20)"
proof -
  let ?es = "[ClickTab TabUpload, FileInputChange (Some \<lparr>file_name = ''a.pdf''\<rparr>), IntervalTick]"
  obtain s where s: "run sample_host sample_page (mounted sample_page) ?es = Some s"
    by (simp add: mounted_def handler_defs)
  obtain s' where s': "step sample_host sample_page s IntervalTick = Some s'"
    using s by (auto simp add: mounted_def handler_defs)
  have r: "reachable sample_host sample_page s"
    using reachable_mounted s by (rule run_reachable)
  have up: "isUploading s \<and> isUploading s'" and p: "uploadProgress s = 15"
    using s s' by (auto simp add: mounted_def handler_defs)
  from upload_progress_monotone [OF r s'] up p
  have "uploadProgress s' = 20" by simp
  with s s' up p show ?thesis by (simp add: mounted_def handler_defs)
qed

subsection \<open>The document type of an upload\<close>

lemma doc_type_inv_mounted: "doc_type_inv loc (mounted loc)"
  by (simp add: doc_type_inv_def doc_type_names_def mounted_def fetchStats_def fetchResults_def
      getStats_def getResults_def)

lemma doc_button_type_name: "doc_button_type b \<in> set doc_type_names"
  by (cases b) (simp_all add: doc_type_names_def)

lemma doc_type_inv_step:
  assumes "doc_type_inv loc s" and "step h loc s e = Some s'"
  shows "doc_type_inv loc s'"
proof (cases e)
  case (ClickTab t)
  with assms show ?thesis by (auto simp: doc_type_inv_def)
next
  case (ClickDocType b)
  with assms doc_button_type_name [of b] show ?thesis
    by (auto simp: doc_type_inv_def split: if_splits)
next
  case (ClickFilter f)
  with assms show ?thesis
    by (auto simp: doc_type_inv_def handler_defs getStats_def getResults_def Let_def split: if_splits)
next
  case (FileInputChange chosen)
  with assms show ?thesis
    by (cases chosen)
      (auto simp: doc_type_inv_def handler_defs uploadFile_def list_ex_iff split: if_splits)
next
  case IntervalTick
  with assms show ?thesis by (auto simp: doc_type_inv_def split: if_splits)
next
  case (UploadResolved d t)
  with assms show ?thesis
    by (auto simp: doc_type_inv_def handler_defs Let_def split: if_splits option.splits sum.splits)
next
  case (UploadRejected err)
  with assms show ?thesis
    by (auto simp: doc_type_inv_def handler_defs split: if_splits option.splits sum.splits)
next
  case TimeoutElapsed
  with assms show ?thesis
    by (auto simp: doc_type_inv_def handler_defs getStats_def getResults_def Let_def
        split: if_splits option.splits sum.splits)
next
  case (WsMessage m t)
  with assms show ?thesis
    by (auto simp: doc_type_inv_def split: sum.splits)
qed

lemma reachable_doc_type_inv: "reachable h loc s \<Longrightarrow> doc_type_inv loc s"
  by (induction rule: reachable.induct) (auto intro: doc_type_inv_mounted doc_type_inv_step)

text \<open>
  Claim C3. The selected document type starts as \<^verbatim>\<open>invoice\<close>; in every reachable state
  it is \<^verbatim>\<open>invoice\<close>, \<^verbatim>\<open>contract\<close> or \<^verbatim>\<open>crac\<close>, the only values a button sets; choosing a
  file sends \<open>uploadFile\<close> with the selected type, whose URL carries exactly that type as
  \<^verbatim>\<open>doc_type\<close>; so every upload request sent has one of the three types.
\<close>

theorem upload_doc_type_valid:
  assumes "reachable h loc s"
  shows "selectedDocType (mounted loc) = ''invoice''
       \<and> selectedDocType s \<in> {''invoice'', ''contract'', ''crac''}
       \<and> (\<forall>r \<in> set (outbox s). req_method r = POST \<longrightarrow>
            req_url r \<in> {''process/upload?doc_type=invoice'', ''process/upload?doc_type=contract'',
                          ''process/upload?doc_type=crac''})
       \<and> (\<forall>b s'. step h loc s (ClickDocType b) = Some s' \<longrightarrow>
            selectedDocType s' \<in> {''invoice'', ''contract'', ''crac''})
       \<and> (\<forall>f s'. step h loc s (FileInputChange (Some f)) = Some s' \<longrightarrow>
            outbox s' = outbox s @ [uploadFile loc f (selectedDocType s)])
       \<and> req_url (uploadFile loc f t) = ''process/upload?doc_type='' @ t"
proof -
  have inv: "doc_type_inv loc s" using assms by (rule reachable_doc_type_inv)
  have 1: "selectedDocType (mounted loc) = ''invoice''"
    by (simp add: mounted_def fetchStats_def fetchResults_def)
  have 2: "selectedDocType s \<in> {''invoice'', ''contract'', ''crac''}"
    using inv by (simp add: doc_type_inv_def doc_type_names_def)
  have 3: "\<forall>r \<in> set (outbox s). req_method r = POST \<longrightarrow>
            req_url r \<in> {''process/upload?doc_type=invoice'', ''process/upload?doc_type=contract'',
                          ''process/upload?doc_type=crac''}"
    using inv by (auto simp: doc_type_inv_def doc_type_names_def list_all_iff)
  have 4: "\<forall>b s'. step h loc s (ClickDocType b) = Some s' \<longrightarrow>
            selectedDocType s' \<in> {''invoice'', ''contract'', ''crac''}"
  proof (intro allI impI)
    fix b s' assume "step h loc s (ClickDocType b) = Some s'"
    then have "selectedDocType s' = doc_button_type b" by (auto split: if_splits)
    then show "selectedDocType s' \<in> {''invoice'', ''contract'', ''crac''}"
      by (cases b) simp_all
  qed
  have 5: "\<forall>f s'. step h loc s (FileInputChange (Some f)) = Some s' \<longrightarrow>
            outbox s' = outbox s @ [uploadFile loc f (selectedDocType s)]"
    by (auto simp: handleFileUpload_def split: if_splits)
  have 6: "req_url (uploadFile loc f t) = ''process/upload?doc_type='' @ t"
    by (simp add: uploadFile_def)
  from 1 2 3 4 5 6 show ?thesis by blast
qed

theorem upload_doc_type_valid_witness:
  "map_option (map req_url \<circ> filter (\<lambda>r. req_method r = POST) \<circ> outbox)
     (run sample_host sample_page (mounted sample_page)
       [ClickTab TabUpload, ClickDocType BtnCrac, FileInputChange (Some \<lparr>file_name = ''a.pdf''\<rparr>)])
   = Some [''process/upload?doc_type=crac'']"
proof -
  let ?es = "[ClickTab TabUpload, ClickDocType BtnCrac, FileInputChange (Some \<lparr>file_name = ''a.pdf''\<rparr>)]"
  obtain s where s: "run sample_host sample_page (mounted sample_page) ?es = Some s"
    by (simp add: mounted_def handler_defs)
  have r: "reachable sample_host sample_page s"
    using reachable_mounted s by (rule run_reachable)
  have "selectedDocType s \<in> {''invoice'', ''contract'', ''crac''}"
    using upload_doc_type_valid [OF r] by blast
  then show ?thesis
    using s by (clarsimp simp: mounted_def handler_defs getStats_def getResults_def uploadFile_def)
qed

subsection \<open>The filter of the results request\<close>

text \<open>
  Claim C7 holds for the request the filter effect sends and fails for the refresh after
  an upload. First trace: on the results tab, Invoices and then All are selected; the
  results requests sent (after the one at mount) carry \<^verbatim>\<open>doc_type=invoice\<close> and then no
  parameter. Second trace: Invoices is selected, a file is chosen on the upload tab, All
  is selected while the upload runs, the upload succeeds and the timeout fires; the
  refresh it sends is built by the \<^verbatim>\<open>fetchResults\<close> of the render in which the file was
  chosen, so with All selected the last results request still carries
  \<^verbatim>\<open>doc_type=invoice\<close>.
\<close>

theorem post_upload_refresh_stale_filter:
  "map_option (map req_params \<circ> filter (\<lambda>r. req_url r = ''results'') \<circ> outbox)
     (run sample_host sample_page (mounted sample_page)
       [ClickTab TabResults, ClickFilter FilterInvoices, ClickFilter FilterAll])
     = Some [[], [(''doc_type'', JStr ''invoice'')], []]
   \<and> map_option (\<lambda>s. (filterType s,
                       req_params (last (filter (\<lambda>r. req_url r = ''results'') (outbox s)))))
     (run sample_host sample_page (mounted sample_page)
       [ClickTab TabResults, ClickFilter FilterInvoices, ClickTab TabUpload,
        FileInputChange (Some \<lparr>file_name = ''a.pdf''\<rparr>),
        ClickTab TabResults, ClickFilter FilterAll,
        UploadResolved (JObj [(''id'', JNum (Fin 7)), (''processing_time_seconds'', JNum (Fin 3))])
          ''10:15:00'',
        TimeoutElapsed])
     = Some (JNull, [(''doc_type'', JStr ''invoice'')])"
  by (simp add: mounted_def handler_defs getStats_def getResults_def uploadFile_def
      success_line_def member_def js_eval)

subsection \<open>The end of an upload\<close>




text \<open>
  Claim C6. When the upload request succeeds with a response body (one that is neither
  \<^verbatim>\<open>null\<close> nor \<^verbatim>\<open>undefined\<close>) whose \<^verbatim>\<open>processing_time_seconds\<close> has a text, as every
  number has, the handler puts at the front of the log the SUCCESS line with the name of
  the chosen file and that text, sets the progress to 100 and stops the interval; the
  timeout it schedules then switches to the results tab and sends the results request
  and the stats request.
\<close>

theorem upload_success_handling:
  assumes "awaiting s = Some c" and "\<not> nullish data"
    and "has_text (get_prop data ''processing_time_seconds'')"
  shows "\<exists>s1 s2 t. to_string h (get_prop data ''processing_time_seconds'') = Inr t
           \<and> (\<forall>n. get_prop data ''processing_time_seconds'' = JNum n \<longrightarrow>
                 t = number_to_string h n)
           \<and> step h loc s (UploadResolved data now) = Some s1
           \<and> ocrLogs s1 =
                (''['' @ now @ ''] SUCCESS: '' @ file_name (cl_file c) @ '' processed in ''
                   @ t @ ''s'') # ocrLogs s
           \<and> uploadProgress s1 = 100 \<and> \<not> progressInterval s1
           \<and> activeTab s1 = activeTab s \<and> outbox s1 = outbox s
           \<and> step h loc s1 TimeoutElapsed = Some s2
           \<and> activeTab s2 = ''results''
           \<and> outbox s2 = outbox s @ [getResults loc (cl_filterType c), getStats loc]
           \<and> \<not> isUploading s2 \<and> uploadProgress s2 = 0"
proof -
  obtain t where t: "to_string h (get_prop data ''processing_time_seconds'') = Inr t"
    using assms(3) has_text_iff by blast
  have n: "\<forall>n. get_prop data ''processing_time_seconds'' = JNum n \<longrightarrow> t = number_to_string h n"
    using t by auto
  let ?s1 = "upload_resolved h c data now s"
  have s1: "step h loc s (UploadResolved data now) = Some ?s1"
    using assms(1) by simp
  have r: "?s1 = s\<lparr>uploadProgress := 100, progressInterval := False, awaiting := None,
                   ocrLogs := (''['' @ now @ ''] SUCCESS: '' @ file_name (cl_file c)
                      @ '' processed in '' @ t @ ''s'') # ocrLogs s,
                   scheduled := Some c\<rparr>"
    using assms(2) t by (simp add: upload_resolved_def member_def success_line_def Let_def)
  show ?thesis
    using t n s1
    by (intro exI [of _ ?s1] exI [of _ "upload_timeout loc c ?s1"] exI [of _ t])
       (simp add: r upload_timeout_def fetchStats_def fetchResults_def)
qed

theorem upload_success_handling_witness:
  "map_option (\<lambda>s. (ocrLogs s, activeTab s, map req_url (outbox s), isUploading s))
     (run sample_host sample_page (mounted sample_page)
        [ClickTab TabUpload, FileInputChange (Some \<lparr>file_name = ''a.pdf''\<rparr>),
         UploadResolved (JObj [(''id'', JNum (Fin 7)), (''processing_time_seconds'', JNum (Fin 3))])
           ''10:15:00'',
         TimeoutElapsed])
   = Some ([''[10:15:00] SUCCESS: a.pdf processed in 3s''], ''results'',
           [''stats'', ''results'', ''process/upload?doc_type=invoice'', ''results'', ''stats''],
           False)"
proof -
  let ?d = "JObj [(''id'', JNum (Fin 7)), (''processing_time_seconds'', JNum (Fin 3))]"
  obtain s where s: "run sample_host sample_page (mounted sample_page)
        [ClickTab TabUpload, FileInputChange (Some \<lparr>file_name = ''a.pdf''\<rparr>)] = Some s"
    by (simp add: mounted_def handler_defs)
  then have a: "awaiting s = Some \<lparr>cl_file = \<lparr>file_name = ''a.pdf''\<rparr>, cl_filterType = JNull\<rparr>"
    by (auto simp: mounted_def handler_defs)
  have n: "\<not> nullish ?d" by simp
  have p: "has_text (get_prop ?d ''processing_time_seconds'')" by simp
  from upload_success_handling [OF a n p, of sample_host sample_page "''10:15:00''"]
  obtain s1 s2 where "step sample_host sample_page s (UploadResolved ?d ''10:15:00'') = Some s1"
    and "step sample_host sample_page s1 TimeoutElapsed = Some s2" and "activeTab s2 = ''results''"
    by blast
  then show ?thesis
    using s
    by (clarsimp simp: mounted_def handler_defs success_line_def member_def js_eval
        getStats_def getResults_def uploadFile_def split: option.splits)
qed

subsection \<open>The confidence of a result row\<close>

lemma falsy_number: "truthy (JNum x) \<longleftrightarrow> x \<notin> {NaN, Fin 0}"
  by (cases x) simp_all

lemma confidence_of_number:
  assumes "member res ''structured_data'' = Inr sd"
    and "to_number h (opt_member sd ''confidence'') = Inr n"
  shows "ResultRow_confidence h res =
           Inr (if js_mul n (Fin 100) \<in> {NaN, Fin 0} then ''95.0%''
                else to_fixed1 h (js_mul n (Fin 100)) @ ''%'')"
  using assms falsy_number [of "js_mul n (Fin 100)"]
  by (simp add: ResultRow_confidence_def Let_def to_fixed1_95 del: to_fixed1.simps)

text \<open>
  Claim C9. For a result row whose \<^verbatim>\<open>structured_data?.confidence\<close> converts to a number
  \<open>n\<close>, as every value with a text does, let \<open>x\<close> be the double \<open>n * 100\<close>. When \<open>x\<close> is
  falsy (\<^verbatim>\<open>NaN\<close> or 0) the row shows \<^verbatim>\<open>95.0%\<close>, as it does when the confidence is absent,
  \<^verbatim>\<open>null\<close>, \<^verbatim>\<open>false\<close>, \<^verbatim>\<open>NaN\<close> or 0; otherwise it shows \<^verbatim>\<open>x.toFixed(1)\<close> and a percent
  sign, which for a finite \<open>x\<close> below \<open>10\<^sup>2\<^sup>1\<close> in magnitude is its sign, the digits of its
  nearest tenth before the point, and one digit after it. A number converts to itself, a
  string to the number it denotes, \<^verbatim>\<open>true\<close> to 1, an array to the number its text
  denotes, a plain object to \<^verbatim>\<open>NaN\<close>; a confidence without text makes the row throw.
\<close>

theorem result_row_confidence:
  assumes "member res ''structured_data'' = Inr sd"
  shows "(has_text (opt_member sd ''confidence'') \<longrightarrow>
            (\<exists>n. to_number h (opt_member sd ''confidence'') = Inr n
               \<and> ResultRow_confidence h res =
                   Inr (if js_mul n (Fin 100) \<in> {NaN, Fin 0} then ''95.0%''
                        else to_fixed1 h (js_mul n (Fin 100)) @ ''%'')))
       \<and> (opt_member sd ''confidence''
             \<in> {JUndefined, JNull, JBool False, JNum (Fin 0), JNum NaN} \<longrightarrow>
            ResultRow_confidence h res = Inr ''95.0%'')
       \<and> (opt_member sd ''confidence'' = JBool True \<longrightarrow>
            ResultRow_confidence h res = Inr ''100.0%'')
       \<and> (\<forall>n. opt_member sd ''confidence'' = JNum n \<longrightarrow>
            ResultRow_confidence h res =
              Inr (if js_mul n (Fin 100) \<in> {NaN, Fin 0} then ''95.0%''
                   else to_fixed1 h (js_mul n (Fin 100)) @ ''%''))
       \<and> (\<forall>t. opt_member sd ''confidence'' = JStr t \<longrightarrow>
            ResultRow_confidence h res =
              Inr (if js_mul (string_number h t) (Fin 100) \<in> {NaN, Fin 0} then ''95.0%''
                   else to_fixed1 h (js_mul (string_number h t) (Fin 100)) @ ''%''))
       \<and> (\<forall>xs t. opt_member sd ''confidence'' = JArr xs \<and> to_string h (JArr xs) = Inr t \<longrightarrow>
            ResultRow_confidence h res =
              Inr (if js_mul (string_number h t) (Fin 100) \<in> {NaN, Fin 0} then ''95.0%''
                   else to_fixed1 h (js_mul (string_number h t) (Fin 100)) @ ''%''))
       \<and> (\<forall>kvs. opt_member sd ''confidence'' = JObj kvs \<and> \<not> has_own kvs ''toString'' \<longrightarrow>
            ResultRow_confidence h res = Inr ''95.0%'')
       \<and> (\<forall>n x. to_number h (opt_member sd ''confidence'') = Inr n
              \<and> js_mul n (Fin 100) = Fin x \<and> x \<noteq> 0 \<and> \<bar>x\<bar> < 10 ^ 21 \<longrightarrow>
            ResultRow_confidence h res =
              Inr ((if x < 0 then ''-'' else '''')
                   @ show_nat (nat \<lfloor>\<bar>x\<bar> * 10 + 1 / 2\<rfloor> div 10) @ ''.''
                   @ [digit_char (nat \<lfloor>\<bar>x\<bar> * 10 + 1 / 2\<rfloor> mod 10)] @ ''%''))
       \<and> (\<not> has_text (opt_member sd ''confidence'') \<longrightarrow>
            (\<exists>e. ResultRow_confidence h res = Inl e))"
proof -
  let ?c = "opt_member sd ''confidence''"
  note num = confidence_of_number [OF assms]
  have 1: "has_text ?c \<longrightarrow>
            (\<exists>n. to_number h ?c = Inr n
               \<and> ResultRow_confidence h res =
                   Inr (if js_mul n (Fin 100) \<in> {NaN, Fin 0} then ''95.0%''
                        else to_fixed1 h (js_mul n (Fin 100)) @ ''%''))"
    using num has_text_to_number [of ?c h] by blast
  have 2: "?c \<in> {JUndefined, JNull, JBool False, JNum (Fin 0), JNum NaN} \<longrightarrow>
            ResultRow_confidence h res = Inr ''95.0%''"
  proof
    assume "?c \<in> {JUndefined, JNull, JBool False, JNum (Fin 0), JNum NaN}"
    then have "to_number h ?c = Inr NaN \<or> to_number h ?c = Inr (Fin 0)"
      by auto
    then show "ResultRow_confidence h res = Inr ''95.0%''"
      using num [where n = NaN] num [where n = "Fin 0"] by (auto simp: to_double_def)
  qed
  have 3: "?c = JBool True \<longrightarrow> ResultRow_confidence h res = Inr ''100.0%''"
  proof
    assume "?c = JBool True"
    then have "to_number h ?c = Inr (Fin 1)" by simp
    from num [OF this] show "ResultRow_confidence h res = Inr ''100.0%''"
      by (simp add: to_double_100 to_fixed1_100 del: to_fixed1.simps)
  qed
  have 4: "\<forall>n. ?c = JNum n \<longrightarrow>
            ResultRow_confidence h res =
              Inr (if js_mul n (Fin 100) \<in> {NaN, Fin 0} then ''95.0%''
                   else to_fixed1 h (js_mul n (Fin 100)) @ ''%'')"
    using num by simp
  have 5: "\<forall>t. ?c = JStr t \<longrightarrow>
            ResultRow_confidence h res =
              Inr (if js_mul (string_number h t) (Fin 100) \<in> {NaN, Fin 0} then ''95.0%''
                   else to_fixed1 h (js_mul (string_number h t) (Fin 100)) @ ''%'')"
    using num by simp
  have arr: "\<forall>xs t. ?c = JArr xs \<and> to_string h (JArr xs) = Inr t \<longrightarrow>
            ResultRow_confidence h res =
              Inr (if js_mul (string_number h t) (Fin 100) \<in> {NaN, Fin 0} then ''95.0%''
                   else to_fixed1 h (js_mul (string_number h t) (Fin 100)) @ ''%'')"
  proof (intro allI impI)
    fix xs t
    assume "?c = JArr xs \<and> to_string h (JArr xs) = Inr t"
    then have "to_number h ?c = Inr (string_number h t)"
      by (simp del: to_string.simps)
    from num [OF this] show "ResultRow_confidence h res =
              Inr (if js_mul (string_number h t) (Fin 100) \<in> {NaN, Fin 0} then ''95.0%''
                   else to_fixed1 h (js_mul (string_number h t) (Fin 100)) @ ''%'')" .
  qed
  have obj: "\<forall>kvs. ?c = JObj kvs \<and> \<not> has_own kvs ''toString'' \<longrightarrow>
            ResultRow_confidence h res = Inr ''95.0%''"
  proof (intro allI impI)
    fix kvs
    assume "?c = JObj kvs \<and> \<not> has_own kvs ''toString''"
    then have "to_number h ?c = Inr NaN" by simp
    from num [OF this] show "ResultRow_confidence h res = Inr ''95.0%''" by simp
  qed
  have 6: "\<forall>n x. to_number h ?c = Inr n
              \<and> js_mul n (Fin 100) = Fin x \<and> x \<noteq> 0 \<and> \<bar>x\<bar> < 10 ^ 21 \<longrightarrow>
            ResultRow_confidence h res =
              Inr ((if x < 0 then ''-'' else '''')
                   @ show_nat (nat \<lfloor>\<bar>x\<bar> * 10 + 1 / 2\<rfloor> div 10) @ ''.''
                   @ [digit_char (nat \<lfloor>\<bar>x\<bar> * 10 + 1 / 2\<rfloor> mod 10)] @ ''%'')"
  proof (intro allI impI)
    fix n x
    assume a: "to_number h ?c = Inr n \<and> js_mul n (Fin 100) = Fin x \<and> x \<noteq> 0 \<and> \<bar>x\<bar> < 10 ^ 21"
    then have "ResultRow_confidence h res = Inr (to_fixed1 h (Fin x) @ ''%'')"
      using num [where n = n] by simp
    then show "ResultRow_confidence h res =
              Inr ((if x < 0 then ''-'' else '''')
                   @ show_nat (nat \<lfloor>\<bar>x\<bar> * 10 + 1 / 2\<rfloor> div 10) @ ''.''
                   @ [digit_char (nat \<lfloor>\<bar>x\<bar> * 10 + 1 / 2\<rfloor> mod 10)] @ ''%'')"
      using a by (simp add: Let_def show_nat_digit)
  qed
  have 7: "\<not> has_text ?c \<longrightarrow> (\<exists>e. ResultRow_confidence h res = Inl e)"
  proof
    assume "\<not> has_text ?c"
    then have "\<nexists>n. to_number h ?c = Inr n"
      using has_text_to_number [of ?c h] by simp
    then obtain e where "to_number h ?c = Inl e"
      by (cases "to_number h ?c") auto
    then show "\<exists>e. ResultRow_confidence h res = Inl e"
      using assms by (simp add: ResultRow_confidence_def)
  qed
  from 1 2 3 4 5 arr obj 6 7 show ?thesis by blast
qed

lemma double_9535: "to_double (9535 / 10000) = Fin (536772780587221 / 562949953421312)"
  by (simp add: fl_eval)

lemma double_9025: "to_double (9025 / 10000) = Fin (8128997327403745 / 9007199254740992)"
  by (simp add: fl_eval)

lemma product_9535:
  "js_mul (Fin (536772780587221 / 562949953421312)) (Fin 100)
     = Fin (3354829878670131 / 35184372088832)"
  by (simp add: fl_eval)

lemma product_9025: "js_mul (Fin (8128997327403745 / 9007199254740992)) (Fin 100) = Fin (361 / 4)"
  by (simp add: fl_eval)

lemma product_875: "js_mul (Fin (7 / 8)) (Fin 100) = Fin (175 / 2)"
  by (simp add: fl_eval)

theorem result_row_confidence_witness:
  "ResultRow_confidence sample_host
     (JObj [(''id'', JNum (Fin 7)),
            (''structured_data'', JObj [(''confidence'', JNum (to_double (9535 / 10000)))])])
     = Inr ''95.3%''
   \<and> ResultRow_confidence sample_host
     (JObj [(''id'', JNum (Fin 7)),
            (''structured_data'', JObj [(''confidence'', JNum (to_double (9025 / 10000)))])])
     = Inr ''90.3%''
   \<and> ResultRow_confidence sample_host
     (JObj [(''id'', JNum (Fin 7)), (''structured_data'', JObj [(''confidence'', JNum (Fin (875 / 1000)))])])
     = Inr ''87.5%''
   \<and> ResultRow_confidence sample_host
     (JObj [(''id'', JNum (Fin 7)), (''structured_data'', JObj [(''confidence'', JNum (Fin 0))])])
     = Inr ''95.0%''
   \<and> ResultRow_confidence sample_host
     (JObj [(''id'', JNum (Fin 7)), (''structured_data'', JObj [(''confidence'', JBool True)])])
     = Inr ''100.0%''
   \<and> ResultRow_confidence sample_host
     (JObj [(''id'', JNum (Fin 7)), (''structured_data'', JObj [(''total'', JStr ''12'')])])
     = Inr ''95.0%''
   \<and> ResultRow_confidence sample_host (JObj [(''id'', JNum (Fin 7))]) = Inr ''95.0%''"
proof -
  let ?d = "Fin (536772780587221 / 562949953421312)"
  let ?row = "JObj [(''id'', JNum (Fin 7)), (''structured_data'', JObj [(''confidence'', JNum ?d)])]"
  have m: "member ?row ''structured_data'' = Inr (JObj [(''confidence'', JNum ?d)])"
    by (simp add: member_def)
  have c: "opt_member (JObj [(''confidence'', JNum ?d)]) ''confidence'' = JNum ?d"
    by (simp add: opt_member_def)
  from result_row_confidence [OF m, of sample_host] c
  have "ResultRow_confidence sample_host ?row =
          Inr (if js_mul ?d (Fin 100) \<in> {NaN, Fin 0} then ''95.0%''
               else to_fixed1 sample_host (js_mul ?d (Fin 100)) @ ''%'')"
    by blast
  then have 1: "ResultRow_confidence sample_host ?row = Inr ''95.3%''"
    unfolding product_9535 by (simp add: js_eval)
  have 2: "ResultRow_confidence sample_host
     (JObj [(''id'', JNum (Fin 7)),
            (''structured_data'', JObj [(''confidence'', JNum (to_double (9025 / 10000)))])])
     = Inr ''90.3%''"
    unfolding double_9025
    by (simp add: ResultRow_confidence_def member_def opt_member_def product_9025 js_eval
        del: js_mul.simps)
  have 3: "ResultRow_confidence sample_host
     (JObj [(''id'', JNum (Fin 7)), (''structured_data'', JObj [(''confidence'', JNum (Fin (875 / 1000)))])])
     = Inr ''87.5%''"
    by (simp add: ResultRow_confidence_def member_def opt_member_def product_875 js_eval
        del: js_mul.simps)
  have 4: "ResultRow_confidence sample_host
     (JObj [(''id'', JNum (Fin 7)), (''structured_data'', JObj [(''confidence'', JNum (Fin 0))])])
     = Inr ''95.0%''"
    by (simp add: ResultRow_confidence_def member_def opt_member_def to_double_def js_eval)
  have 5: "ResultRow_confidence sample_host
     (JObj [(''id'', JNum (Fin 7)), (''structured_data'', JObj [(''confidence'', JBool True)])])
     = Inr ''100.0%''"
    by (simp add: ResultRow_confidence_def member_def opt_member_def to_double_100 js_eval)
  have 6: "ResultRow_confidence sample_host
     (JObj [(''id'', JNum (Fin 7)), (''structured_data'', JObj [(''total'', JStr ''12'')])])
     = Inr ''95.0%''"
    by (simp add: ResultRow_confidence_def member_def opt_member_def js_eval)
  have 7: "ResultRow_confidence sample_host (JObj [(''id'', JNum (Fin 7))]) = Inr ''95.0%''"
    by (simp add: ResultRow_confidence_def member_def opt_member_def js_eval)
  show ?thesis
    unfolding double_9535 using 1 2 3 4 5 6 7 by (intro conjI)
qed

subsection \<open>The aggregate counts\<close>

lemma count_of_type_sum:
  "count_of_type Invoice st + count_of_type Contract st + count_of_type Crac st = length st"
proof (induction st)
  case Nil
  then show ?case by (simp add: count_of_type_def)
next
  case (Cons r st)
  then show ?case
    by (cases "result_doc_type r") (simp_all add: count_of_type_def)
qed

text \<open>
  Claim C4. After any sequence of creates and deletes, the total of the aggregate counts
  is the length of the unfiltered list of Results, the counts of the three types add up
  to it, and each is the length of the list filtered by its type; the counts are a
  function of the stored Results alone.
\<close>

theorem aggregate_counts_consistent:
  "total_files (aggregateCounts (store_after ops)) = length (list_results None (store_after ops))
   \<and> invoice (aggregateCounts (store_after ops)) + contract (aggregateCounts (store_after ops))
       + crac (aggregateCounts (store_after ops))
     = total_files (aggregateCounts (store_after ops))
   \<and> invoice (aggregateCounts (store_after ops))
     = length (list_results (Some Invoice) (store_after ops))
   \<and> contract (aggregateCounts (store_after ops))
     = length (list_results (Some Contract) (store_after ops))
   \<and> crac (aggregateCounts (store_after ops))
     = length (list_results (Some Crac) (store_after ops))"
  using count_of_type_sum [of "store_after ops"]
  by (simp add: aggregateCounts_def list_results_def count_of_type_def)

theorem aggregate_counts_consistent_witness:
  "aggregateCounts (store_after
     [Create \<lparr>result_id = 1, result_file_name = ''a.pdf'', result_doc_type = Invoice, processed_at = 10\<rparr>,
      Create \<lparr>result_id = 2, result_file_name = ''b.pdf'', result_doc_type = Crac, processed_at = 20\<rparr>,
      Create \<lparr>result_id = 3, result_file_name = ''c.pdf'', result_doc_type = Invoice, processed_at = 30\<rparr>,
      Delete 1, Delete 1])
   = \<lparr>total_files = 2, invoice = 1, contract = 0, crac = 1\<rparr>
   \<and> map result_id (list_results None (store_after
     [Create \<lparr>result_id = 1, result_file_name = ''a.pdf'', result_doc_type = Invoice, processed_at = 10\<rparr>,
      Create \<lparr>result_id = 2, result_file_name = ''b.pdf'', result_doc_type = Crac, processed_at = 20\<rparr>,
      Create \<lparr>result_id = 3, result_file_name = ''c.pdf'', result_doc_type = Invoice, processed_at = 30\<rparr>,
      Delete 1, Delete 1]))
   = [3, 2]"
  using aggregate_counts_consistent [of
     "[Create \<lparr>result_id = 1, result_file_name = ''a.pdf'', result_doc_type = Invoice, processed_at = 10\<rparr>,
      Create \<lparr>result_id = 2, result_file_name = ''b.pdf'', result_doc_type = Crac, processed_at = 20\<rparr>,
      Create \<lparr>result_id = 3, result_file_name = ''c.pdf'', result_doc_type = Invoice, processed_at = 30\<rparr>,
      Delete 1, Delete 1]"]
  by (simp add: store_after_def save_result_def delete_result_def aggregateCounts_def
      count_of_type_def list_results_def)

end
